theory Spec2Isabelle
  imports Main "HOL-Library.Multiset" "HOL-Library.Sublist"
begin

section \<open>Data model of \<^verbatim>\<open>bci_build/package.py\<close>\<close>

text \<open>
  The enumerations of the module. Each has a \<^verbatim>\<open>__str__\<close> that returns the value
  of the member.
\<close>

datatype ReleaseStage = BETA | RELEASED

datatype ImageType = SLE_BCI | APPLICATION

datatype BuildType = DOCKER | KIWI

datatype PackageType = DELETE | UNINSTALL | BOOTSTRAP | IMAGE

fun PackageType_str :: "PackageType \<Rightarrow> string" where
  "PackageType_str DELETE = ''delete''"
| "PackageType_str UNINSTALL = ''uninstall''"
| "PackageType_str BOOTSTRAP = ''bootstrap''"
| "PackageType_str IMAGE = ''image''"

text \<open>
  The dataclass \<^verbatim>\<open>Package\<close>: a name and a package type (\<^verbatim>\<open>PackageType.IMAGE\<close>
  unless given). The field \<^verbatim>\<open>name\<close> is called \<open>pkg_name\<close> here, since the image
  descriptor has a field \<^verbatim>\<open>name\<close> of its own.
\<close>

datatype Package = Package (pkg_name: string) (pkg_type: PackageType)

text \<open>
  An entry of \<^verbatim>\<open>package_list\<close> is a plain \<^verbatim>\<open>str\<close> or a \<^verbatim>\<open>Package\<close>; the code
  tells them apart with \<^verbatim>\<open>isinstance\<close>.
\<close>

datatype pkg_entry = PStr string | PPkg Package

text \<open>\<^verbatim>\<open>str(pkg)\<close>: the string itself, or \<^verbatim>\<open>Package.__str__\<close>, which is the name.\<close>

fun pkg_entry_str :: "pkg_entry \<Rightarrow> string" where
  "pkg_entry_str (PStr s) = s"
| "pkg_entry_str (PPkg p) = pkg_name p"

datatype parse_version = major | minor | patch | patch_update | offset

record Replacement =
  regex_in_dockerfile :: string
  package_name :: string
  parse_version :: "parse_version option"

text \<open>Values of \<^verbatim>\<open>Union[str, int]\<close> (environment values, the version) and of
  \<^verbatim>\<open>Union[str, bytes]\<close> (contents of a file).\<close>

datatype str_or_int = SVal string | IVal int

datatype contents = CStr string | CBytes string

text \<open>The exceptions the code raises, with their message.\<close>

datatype error = ValueError string | IndexError | TemplateError string | OSError

text \<open>
  The dataclass \<^verbatim>\<open>BaseContainerImage\<close>. A \<^verbatim>\<open>Dict\<close> is an association list in
  insertion order, the order in which \<^verbatim>\<open>.items()\<close> iterates.
\<close>

record BaseContainerImage =
  name :: string
  pretty_name :: string
  ibs_package :: string
  sp_version :: int
  release_stage :: ReleaseStage
  from_image :: "string option"
  is_latest :: bool
  entrypoint :: "string option"
  env :: "(string \<times> str_or_int) list"
  replacements_via_service :: "Replacement list"
  tech_preview :: bool
  extra_labels :: "(string \<times> string) list"
  package_list :: "pkg_entry list"
  custom_end :: string
  config_sh_script :: string
  maintainer :: string
  extra_files :: "(string \<times> contents) list"
  additional_names :: "string list"
  custom_labelprefix_end :: string
  custom_description :: string
  build_recipe_type :: BuildType

text \<open>
  \<^verbatim>\<open>LanguageStackContainer\<close> adds three dataclass fields; \<^verbatim>\<open>_registry_prefix\<close> is one
  of them (annotated, with the default \<^verbatim>\<open>"bci"\<close>), so the generated constructor takes it.
\<close>

record LanguageStackContainer = BaseContainerImage +
  version :: str_or_int
  additional_versions :: "string list"
  registry_prefix :: string

text \<open>The three concrete classes. \<^verbatim>\<open>ApplicationStackContainer\<close> has the fields of
  \<^verbatim>\<open>LanguageStackContainer\<close>.\<close>

datatype image =
    LanguageStack LanguageStackContainer
  | ApplicationStack LanguageStackContainer
  | Os BaseContainerImage

fun base :: "image \<Rightarrow> BaseContainerImage" where
  "base (LanguageStack c) = BaseContainerImage.truncate c"
| "base (ApplicationStack c) = BaseContainerImage.truncate c"
| "base (Os c) = c"

section \<open>Python strings\<close>

text \<open>\<^verbatim>\<open>sep.join(xs)\<close>.\<close>

fun str_join :: "string \<Rightarrow> string list \<Rightarrow> string" where
  "str_join sep [] = []"
| "str_join sep [x] = x"
| "str_join sep (x # y # ys) = x @ sep @ str_join sep (y # ys)"

definition nl :: string where
  "nl = [CHR 0x0A]"

text \<open>\<^verbatim>\<open>str(n)\<close> for an \<^verbatim>\<open>int\<close>: decimal digits, with a minus sign when negative.\<close>

definition digit_chr :: "nat \<Rightarrow> char" where
  "digit_chr d = ''0123456789'' ! d"

function str_nat :: "nat \<Rightarrow> string" where
  "str_nat n = (if n < 10 then [digit_chr n] else str_nat (n div 10) @ [digit_chr (n mod 10)])"
  by pat_completeness auto
termination
  by (relation "measure (\<lambda>n. n)") auto

definition str_int :: "int \<Rightarrow> string" where
  "str_int i = (if i < 0 then ''-'' @ str_nat (nat (- i)) else str_nat (nat i))"

fun str_of :: "str_or_int \<Rightarrow> string" where
  "str_of (SVal s) = s"
| "str_of (IVal i) = str_int i"

text \<open>Truth value of a \<^verbatim>\<open>Union[str, int]\<close>: the empty string and \<open>0\<close> are false.\<close>

fun truthy :: "str_or_int \<Rightarrow> bool" where
  "truthy (SVal s) = (s \<noteq> [])"
| "truthy (IVal i) = (i \<noteq> 0)"

section \<open>Construction\<close>

text \<open>
  \<^verbatim>\<open>BaseContainerImage.__post_init__\<close>: the package list must not be empty, and
  \<^verbatim>\<open>config_sh_script\<close> and \<^verbatim>\<open>custom_end\<close> must not both be set.
\<close>

definition BaseContainerImage_post_init ::
  "'a BaseContainerImage_scheme \<Rightarrow> error + 'a BaseContainerImage_scheme" where
  "BaseContainerImage_post_init self =
     (if package_list self = [] then
        Inl (ValueError (''No packages were added to '' @ pretty_name self @ ''.''))
      else if config_sh_script self \<noteq> [] \<and> custom_end self \<noteq> [] then
        Inl (ValueError
          ''Cannot specify both a custom_end and a config.sh script! Use just config_sh_script.'')
      else Inr self)"

text \<open>
  \<^verbatim>\<open>LanguageStackContainer.__post_init__\<close> overrides the method of the base class and
  checks the version only; it does not call \<^verbatim>\<open>super().__post_init__()\<close>.
\<close>

definition LanguageStackContainer_post_init ::
  "LanguageStackContainer \<Rightarrow> error + LanguageStackContainer" where
  "LanguageStackContainer_post_init self =
     (if \<not> truthy (version self) then
        Inl (ValueError ''A language stack container requires a version'')
      else Inr self)"

text \<open>
  \<^verbatim>\<open>ApplicationStackContainer.__post_init__\<close> sets \<^verbatim>\<open>_registry_prefix\<close> to
  \<^verbatim>\<open>"suse"\<close> and calls the method of \<^verbatim>\<open>LanguageStackContainer\<close>.
\<close>

definition ApplicationStackContainer_post_init ::
  "LanguageStackContainer \<Rightarrow> error + LanguageStackContainer" where
  "ApplicationStackContainer_post_init self =
     LanguageStackContainer_post_init (self\<lparr>registry_prefix := ''suse''\<rparr>)"

text \<open>
  Constructing an object: the generated \<^verbatim>\<open>__init__\<close> stores the fields and calls the
  \<^verbatim>\<open>__post_init__\<close> of the object's class. The argument is the object with its fields
  stored; the result is the constructed object or the exception raised.
\<close>

fun construct :: "image \<Rightarrow> error + image" where
  "construct (LanguageStack c) =
     (case LanguageStackContainer_post_init c of Inl e \<Rightarrow> Inl e | Inr c' \<Rightarrow> Inr (LanguageStack c'))"
| "construct (ApplicationStack c) =
     (case ApplicationStackContainer_post_init c of
        Inl e \<Rightarrow> Inl e | Inr c' \<Rightarrow> Inr (ApplicationStack c'))"
| "construct (Os c) =
     (case BaseContainerImage_post_init c of Inl e \<Rightarrow> Inl e | Inr c' \<Rightarrow> Inr (Os c'))"

section \<open>Package lists\<close>

text \<open>
  The property \<^verbatim>\<open>packages\<close>. The loop raises at the first \<^verbatim>\<open>Package\<close> whose type is
  not \<^verbatim>\<open>IMAGE\<close>; when it ends, the names are joined with a space.
\<close>

fun packages_check :: "pkg_entry list \<Rightarrow> error + unit" where
  "packages_check [] = Inr ()"
| "packages_check (PStr s # pkgs) = packages_check pkgs"
| "packages_check (PPkg p # pkgs) =
     (if pkg_type p \<noteq> IMAGE then
        Inl (ValueError (''Cannot add a package of type '' @ PackageType_str (pkg_type p)
                         @ '' into a Dockerfile based build.''))
      else packages_check pkgs)"

definition packages :: "'a BaseContainerImage_scheme \<Rightarrow> error + string" where
  "packages self =
     (case packages_check (package_list self) of
        Inl e \<Rightarrow> Inl e
      | Inr _ \<Rightarrow> Inr (str_join '' '' (map pkg_entry_str (package_list self))))"

text \<open>The property \<^verbatim>\<open>kiwi_packages\<close>, with its local function and its constant tuple.\<close>

fun pkg_filter_func :: "PackageType \<Rightarrow> pkg_entry \<Rightarrow> bool" where
  "pkg_filter_func t (PStr s) = (t = IMAGE)"
| "pkg_filter_func t (PPkg p) = (pkg_type p = t)"

definition PKG_TYPES :: "PackageType list" where
  "PKG_TYPES = [DELETE, BOOTSTRAP, IMAGE, UNINSTALL]"

text \<open>The text one iteration of the loop appends for a non-empty list.\<close>

definition packages_element :: "PackageType \<Rightarrow> pkg_entry list \<Rightarrow> string" where
  "packages_element t pkg_list =
     ''  <packages type=\"'' @ PackageType_str t @ ''\">'' @ nl @ ''    ''
     @ str_join (nl @ ''    '')
         (map (\<lambda>pkg. ''<package name=\"'' @ pkg_entry_str pkg @ ''\"/>'') pkg_list)
     @ nl @ ''  </packages>'' @ nl"

text \<open>The loop over the zipped pairs, with \<^verbatim>\<open>res\<close> as accumulator.\<close>

fun kiwi_packages_loop :: "string \<Rightarrow> (pkg_entry list \<times> PackageType) list \<Rightarrow> string" where
  "kiwi_packages_loop res [] = res"
| "kiwi_packages_loop res ((pkg_list, t) # rest) =
     kiwi_packages_loop
       (if length pkg_list > 0 then res @ packages_element t pkg_list else res) rest"

definition kiwi_packages :: "'a BaseContainerImage_scheme \<Rightarrow> string" where
  "kiwi_packages self =
     (let lists = map (\<lambda>t. filter (pkg_filter_func t) (package_list self)) PKG_TYPES
      in kiwi_packages_loop [] (zip lists PKG_TYPES))"

section \<open>Derived strings\<close>



text \<open>The properties \<^verbatim>\<open>description\<close> and \<^verbatim>\<open>title\<close>.\<close>

definition description :: "'a BaseContainerImage_scheme \<Rightarrow> string" where
  "description self =
     (if custom_description self \<noteq> [] then custom_description self
      else ''Image containing '' @ pretty_name self
           @ '' based on the SLE Base Container Image.'')"

definition title :: "'a BaseContainerImage_scheme \<Rightarrow> string" where
  "title self = ''SLE BCI '' @ pretty_name self @ '' Container Image''"

section \<open>Build tags\<close>

text \<open>
  Both \<^verbatim>\<open>build_tags\<close> properties run the same loop: for every name of
  \<^verbatim>\<open>[self.name] + self.additional_names\<close>, a list of tags is appended to \<^verbatim>\<open>tags\<close>.
\<close>

fun build_tags_loop :: "(string \<Rightarrow> string list) \<Rightarrow> string list \<Rightarrow> string list \<Rightarrow> string list" where
  "build_tags_loop f tags [] = tags"
| "build_tags_loop f tags (n # names) = build_tags_loop f (tags @ f n) names"

definition LanguageStackContainer_version_label :: "LanguageStackContainer \<Rightarrow> string" where
  "LanguageStackContainer_version_label self = str_of (version self)"

definition LanguageStackContainer_tags_of :: "LanguageStackContainer \<Rightarrow> string \<Rightarrow> string list" where
  "LanguageStackContainer_tags_of self n =
     [registry_prefix self @ ''/'' @ n @ '':'' @ LanguageStackContainer_version_label self]
     @ (if is_latest self then [registry_prefix self @ ''/'' @ n @ '':latest''] else [])
     @ [registry_prefix self @ ''/'' @ n @ '':'' @ LanguageStackContainer_version_label self
        @ ''-%RELEASE%'']
     @ map (\<lambda>ver. registry_prefix self @ ''/'' @ n @ '':'' @ ver) (additional_versions self)"

definition LanguageStackContainer_build_tags :: "LanguageStackContainer \<Rightarrow> string list" where
  "LanguageStackContainer_build_tags self =
     build_tags_loop (LanguageStackContainer_tags_of self) [] (name self # additional_names self)"

definition OsContainer_version_label :: string where
  "OsContainer_version_label = ''%OS_VERSION_ID_SP%.%RELEASE%''"

definition OsContainer_tags_of :: "BaseContainerImage \<Rightarrow> string \<Rightarrow> string list" where
  "OsContainer_tags_of self n =
     [''bci/bci-'' @ n @ '':%OS_VERSION_ID_SP%'',
      ''bci/bci-'' @ n @ '':'' @ OsContainer_version_label]
     @ (if is_latest self then [''bci/bci-'' @ n @ '':latest''] else [])"

definition OsContainer_build_tags :: "BaseContainerImage \<Rightarrow> string list" where
  "OsContainer_build_tags self =
     build_tags_loop (OsContainer_tags_of self) [] (name self # additional_names self)"

text \<open>Dispatch on the class of the object.\<close>

fun build_tags :: "image \<Rightarrow> string list" where
  "build_tags (LanguageStack c) = LanguageStackContainer_build_tags c"
| "build_tags (ApplicationStack c) = LanguageStackContainer_build_tags c"
| "build_tags (Os c) = OsContainer_build_tags c"

text \<open>The tags one iteration of the loop appends for a name, by class.\<close>

fun tags_of :: "image \<Rightarrow> string \<Rightarrow> string list" where
  "tags_of (LanguageStack c) = LanguageStackContainer_tags_of c"
| "tags_of (ApplicationStack c) = LanguageStackContainer_tags_of c"
| "tags_of (Os c) = OsContainer_tags_of c"

text \<open>The version aliases of an object; \<^verbatim>\<open>OsContainer\<close> has no such field.\<close>

fun aliases :: "image \<Rightarrow> string list" where
  "aliases (LanguageStack c) = additional_versions c"
| "aliases (ApplicationStack c) = additional_versions c"
| "aliases (Os c) = []"

text \<open>The property \<^verbatim>\<open>reference\<close>; \<^verbatim>\<open>self.build_tags[0]\<close> raises on an empty list.\<close>

definition reference :: "image \<Rightarrow> error + string" where
  "reference self =
     (case build_tags self of
        [] \<Rightarrow> Inl IndexError
      | t # _ \<Rightarrow> Inr (''registry.suse.com/'' @ t))"

section \<open>Writing the files\<close>



text \<open>
  What a path names is decided by the operating system, not by the code. A path leads to a
  location where a file can be opened for writing, whether a file is there yet or not; or
  it names something that exists and cannot be opened for writing (a directory, a file
  without write permission); or it cannot be reached (a directory on the way is missing).
  Different paths may lead to the same location (\<^verbatim>\<open>x\<close> and \<^verbatim>\<open>./x\<close>, links). The file
  system maps the locations that hold a file to its contents.
\<close>

datatype target = Location string | Unwritable | Unreachable


text \<open>
  What the code takes from outside: the three templates of \<^verbatim>\<open>bci_build.templates\<close>,
  whose \<^verbatim>\<open>render(image=self)\<close> returns a text or raises; the year of the clock; what
  the paths name; and what a location holds after several tasks wrote to it at the same
  time, which depends on how the event loop and the thread pool interleave their steps.
\<close>

record environment =
  DOCKERFILE_TEMPLATE :: "image \<Rightarrow> error + string"
  KIWI_TEMPLATE :: "image \<Rightarrow> error + string"
  SERVICE_TEMPLATE :: "image \<Rightarrow> error + string"
  current_year :: string
  lookup :: "string \<Rightarrow> target"
  race :: "contents list \<Rightarrow> contents"












section \<open>Descriptors of the catalogue\<close>

text \<open>
  The second object of \<^verbatim>\<open>PYTHON_3_6_CONTAINERS\<close> (service pack 4, built from a
  \<^verbatim>\<open>Dockerfile\<close>), with every default written out.
\<close>

definition PYTHON_3_6_SP4 :: LanguageStackContainer where
  "PYTHON_3_6_SP4 =
     \<lparr> name = ''python'',
       pretty_name = ''Python 3.6'',
       ibs_package = ''python-3.6-image'',
       sp_version = 4,
       release_stage = BETA,
       from_image = Some [],
       is_latest = False,
       entrypoint = None,
       env = [(''PYTHON_VERSION'', SVal ''%%py3_ver%%''), (''PIP_VERSION'', SVal ''%%pip_ver%%'')],
       replacements_via_service =
         [\<lparr> regex_in_dockerfile = ''%%py3_ver%%'', package_name = ''python3-base'',
             parse_version = None \<rparr>,
          \<lparr> regex_in_dockerfile = ''%%pip_ver%%'', package_name = ''python3-pip'',
             parse_version = None \<rparr>],
       tech_preview = True,
       extra_labels = [],
       package_list =
         [PStr ''python3'', PStr ''python3-pip'', PStr ''python3-wheel'', PStr ''curl'',
          PStr ''git-core''],
       custom_end = [],
       config_sh_script = [],
       maintainer = ''SUSE LLC (https://www.suse.com/)'',
       extra_files = [],
       additional_names = [],
       custom_labelprefix_end = [],
       custom_description =
         ''Image containing the Python 3.6 development environment based on the SLE Base Container Image.'',
       build_recipe_type = DOCKER,
       version = SVal ''3.6'',
       additional_versions = [],
       registry_prefix = ''bci'' \<rparr>"

text \<open>\<^verbatim>\<open>BUSYBOX_CONTAINER\<close>, an \<^verbatim>\<open>OsContainer\<close> built with kiwi.\<close>

definition BUSYBOX_CONTAINER :: BaseContainerImage where
  "BUSYBOX_CONTAINER =
     \<lparr> name = ''busybox'',
       pretty_name = ''Busybox'',
       ibs_package = ''busybox-image'',
       sp_version = 4,
       release_stage = BETA,
       from_image = None,
       is_latest = True,
       entrypoint = Some ''/bin/sh'',
       env = [],
       replacements_via_service = [],
       tech_preview = True,
       extra_labels = [],
       package_list =
         [PPkg (Package ''busybox'' BOOTSTRAP), PPkg (Package ''busybox-links'' BOOTSTRAP),
          PPkg (Package ''distribution-release'' BOOTSTRAP),
          PPkg (Package ''ca-certificates-mozilla-prebuilt'' BOOTSTRAP)],
       custom_end = [],
       config_sh_script = [],
       maintainer = ''SUSE LLC (https://www.suse.com/)'',
       extra_files = [],
       additional_names = [],
       custom_labelprefix_end = [],
       custom_description = ''Image containing Busybox based on the SLE Base Container Image.'',
       build_recipe_type = KIWI \<rparr>"




section \<open>The behaviour the specification describes\<close>

text \<open>
  The name and the install phase of an entry, in the words of the specification: a tagged
  entry has its name and the phase of its tag, an entry without a tag is its own name and
  has the default phase.
\<close>

fun spec_name :: "pkg_entry \<Rightarrow> string" where
  "spec_name (PStr s) = s"
| "spec_name (PPkg (Package n t)) = n"

fun spec_phase_of :: "pkg_entry \<Rightarrow> PackageType" where
  "spec_phase_of (PStr s) = IMAGE"
| "spec_phase_of (PPkg (Package n t)) = t"

definition spec_phase :: "PackageType \<Rightarrow> pkg_entry list \<Rightarrow> pkg_entry list" where
  "spec_phase t pkgs = filter (\<lambda>p. spec_phase_of p = t) pkgs"

text \<open>The flat list: the first name, and every further name after one space.\<close>

definition spec_flat :: "pkg_entry list \<Rightarrow> string" where
  "spec_flat pkgs =
     (case pkgs of
        [] \<Rightarrow> []
      | p # ps \<Rightarrow> spec_name p @ concat (map (\<lambda>q. '' '' @ spec_name q) ps))"

text \<open>
  The block of a phase: nothing for an empty phase; otherwise an opening line that names
  the phase, one line with the name of each package, in the order of the list, and a
  closing line.
\<close>

fun spec_phase_name :: "PackageType \<Rightarrow> string" where
  "spec_phase_name DELETE = ''delete''"
| "spec_phase_name BOOTSTRAP = ''bootstrap''"
| "spec_phase_name IMAGE = ''image''"
| "spec_phase_name UNINSTALL = ''uninstall''"

definition spec_package_line :: "pkg_entry \<Rightarrow> string" where
  "spec_package_line p = [CHR 0x0A] @ ''    <package name=\"'' @ spec_name p @ ''\"/>''"

definition spec_block :: "PackageType \<Rightarrow> pkg_entry list \<Rightarrow> string" where
  "spec_block t pkgs =
     (if pkgs = [] then []
      else ''  <packages type=\"'' @ spec_phase_name t @ ''\">''
           @ concat (map spec_package_line pkgs)
           @ [CHR 0x0A] @ ''  </packages>'' @ [CHR 0x0A])"




section \<open>Auxiliary facts\<close>

lemma truncate_simps:
  "name (BaseContainerImage.truncate c) = name c"
  "pretty_name (BaseContainerImage.truncate c) = pretty_name c"
  "ibs_package (BaseContainerImage.truncate c) = ibs_package c"
  "is_latest (BaseContainerImage.truncate c) = is_latest c"
  "package_list (BaseContainerImage.truncate c) = package_list c"
  "custom_end (BaseContainerImage.truncate c) = custom_end c"
  "config_sh_script (BaseContainerImage.truncate c) = config_sh_script c"
  "extra_files (BaseContainerImage.truncate c) = extra_files c"
  "additional_names (BaseContainerImage.truncate c) = additional_names c"
  "custom_description (BaseContainerImage.truncate c) = custom_description c"
  "build_recipe_type (BaseContainerImage.truncate c) = build_recipe_type c"
  by (simp_all add: BaseContainerImage.truncate_def)

subsection \<open>The flat package list\<close>

lemma PackageType_str_eq: "PackageType_str t = spec_phase_name t"
  by (cases t) simp_all

lemma pkg_entry_str_eq: "pkg_entry_str p = spec_name p"
proof (cases p)
  case (PStr s)
  then show ?thesis by simp
next
  case (PPkg q)
  then show ?thesis by (cases q) simp
qed

lemma str_join_concat:
  "str_join sep (x # xs) = x @ concat (map (\<lambda>y. sep @ y) xs)"
  by (induction xs arbitrary: x) simp_all

lemma str_join_flat: "str_join '' '' (map pkg_entry_str pkgs) = spec_flat pkgs"
proof (cases pkgs)
  case Nil
  then show ?thesis by (simp add: spec_flat_def)
next
  case (Cons p ps)
  then show ?thesis
    by (simp add: spec_flat_def str_join_concat pkg_entry_str_eq comp_def)
qed

lemma packages_check_ok:
  "packages_check pkgs = Inr () \<longleftrightarrow> (\<forall>p. PPkg p \<in> set pkgs \<longrightarrow> pkg_type p = IMAGE)"
  by (induction pkgs rule: packages_check.induct) auto

lemma packages_check_raises:
  "packages_check pkgs = Inl e \<Longrightarrow>
   \<exists>p. PPkg p \<in> set pkgs \<and> pkg_type p \<noteq> IMAGE
       \<and> e = ValueError (''Cannot add a package of type '' @ spec_phase_name (pkg_type p)
                          @ '' into a Dockerfile based build.'')"
  by (induction pkgs rule: packages_check.induct)
    (auto simp: PackageType_str_eq split: if_splits)

lemma packages_check_cases:
  "(\<exists>e. packages_check pkgs = Inl e) \<or> packages_check pkgs = Inr ()"
  by (cases "packages_check pkgs") auto

lemma packages_check_skips_str:
  "packages_check (xs @ PStr s # ys) = packages_check (xs @ ys)"
  by (induction xs rule: packages_check.induct) auto

lemma packages_check_strs: "packages_check (map PStr ss) = Inr ()"
  by (induction ss) auto

subsection \<open>The kiwi package list\<close>

lemma pkg_filter_func_phase: "pkg_filter_func t p \<longleftrightarrow> spec_phase_of p = t"
proof (cases p)
  case (PStr s)
  then show ?thesis by auto
next
  case (PPkg q)
  then show ?thesis by (cases q) auto
qed

lemma filter_phase: "filter (pkg_filter_func t) pkgs = spec_phase t pkgs"
  unfolding spec_phase_def by (rule filter_cong) (simp_all add: pkg_filter_func_phase)

lemma packages_element_eq: "ps \<noteq> [] \<Longrightarrow> packages_element t ps = spec_block t ps"
proof (cases ps)
  case Nil
  assume "ps \<noteq> []"
  with Nil show ?thesis by simp
next
  case (Cons p qs)
  then show ?thesis
    by (simp add: packages_element_def spec_block_def spec_package_line_def [abs_def] nl_def
        str_join_concat PackageType_str_eq pkg_entry_str_eq comp_def)
qed

lemma spec_block_eq: "spec_block t ps = (if length ps > 0 then packages_element t ps else [])"
  by (cases ps) (simp_all add: packages_element_eq, simp add: spec_block_def)

lemma kiwi_packages_loop_eq:
  "kiwi_packages_loop res lts = res @ concat (map (\<lambda>(ps, t). spec_block t ps) lts)"
  by (induction res lts rule: kiwi_packages_loop.induct) (auto simp: spec_block_eq)

lemma kiwi_packages_eq:
  "kiwi_packages self =
     spec_block DELETE (spec_phase DELETE (package_list self))
     @ spec_block BOOTSTRAP (spec_phase BOOTSTRAP (package_list self))
     @ spec_block IMAGE (spec_phase IMAGE (package_list self))
     @ spec_block UNINSTALL (spec_phase UNINSTALL (package_list self))"
  by (simp add: kiwi_packages_def PKG_TYPES_def kiwi_packages_loop_eq filter_phase)

lemma phases_partition:
  "mset (spec_phase DELETE pkgs) + mset (spec_phase BOOTSTRAP pkgs)
   + mset (spec_phase IMAGE pkgs) + mset (spec_phase UNINSTALL pkgs) = mset pkgs"
proof (induction pkgs)
  case Nil
  then show ?case by (simp add: spec_phase_def)
next
  case (Cons p pkgs)
  then show ?case
    by (cases "spec_phase_of p") (auto simp: spec_phase_def)
qed

lemma spec_phase_str:
  "spec_phase IMAGE (xs @ PStr s # ys) = spec_phase IMAGE xs @ PStr s # spec_phase IMAGE ys"
  "t \<noteq> IMAGE \<Longrightarrow> spec_phase t (xs @ PStr s # ys) = spec_phase t (xs @ ys)"
  by (simp_all add: spec_phase_def)

subsection \<open>Build tags\<close>

lemma build_tags_loop_eq: "build_tags_loop f tags names = tags @ concat (map f names)"
  by (induction f tags names rule: build_tags_loop.induct) auto

lemma length_concat_const:
  "(\<And>n. length (f n) = k) \<Longrightarrow> length (concat (map f names)) = k * length names"
  by (induction names) auto

lemma length_LanguageStackContainer_tags_of:
  "length (LanguageStackContainer_tags_of c n) =
     1 + (if is_latest c then 1 else 0) + 1 + length (additional_versions c)"
  by (simp add: LanguageStackContainer_tags_of_def)

lemma length_OsContainer_tags_of:
  "length (OsContainer_tags_of c n) = 1 + (if is_latest c then 1 else 0) + 1"
  by (simp add: OsContainer_tags_of_def)

lemma length_LanguageStackContainer_build_tags:
  "length (LanguageStackContainer_build_tags c) =
     (1 + (if is_latest c then 1 else 0) + 1 + length (additional_versions c))
     * length (name c # additional_names c)"
  unfolding LanguageStackContainer_build_tags_def build_tags_loop_eq
  using length_concat_const [of "LanguageStackContainer_tags_of c"]
  by (simp add: length_LanguageStackContainer_tags_of)

lemma length_OsContainer_build_tags:
  "length (OsContainer_build_tags c) =
     (1 + (if is_latest c then 1 else 0) + 1) * length (name c # additional_names c)"
  unfolding OsContainer_build_tags_def build_tags_loop_eq
  using length_concat_const [of "OsContainer_tags_of c"]
  by (simp add: length_OsContainer_tags_of)

lemma LanguageStackContainer_tags_prefix:
  "t \<in> set (LanguageStackContainer_build_tags c) \<Longrightarrow> prefix (registry_prefix c @ ''/'') t"
  by (auto simp: LanguageStackContainer_build_tags_def build_tags_loop_eq
      LanguageStackContainer_tags_of_def split: if_splits)

section \<open>Construction-time validation\<close>

text \<open>
  Claim C1. Construction is said to raise whenever the package list is empty, whenever
  \<^verbatim>\<open>custom_end\<close> and \<^verbatim>\<open>config_sh_script\<close> are both set, and whenever a language stack
  has an empty version. On the code, a \<^verbatim>\<open>LanguageStackContainer\<close> with a version is
  constructed although its package list is empty, and also although both tails are set: its
  \<^verbatim>\<open>__post_init__\<close> replaces the one of the base class and never calls it. An
  \<^verbatim>\<open>OsContainer\<close> with an empty package list is rejected.
\<close>

theorem language_stack_skips_base_validation:
  "construct (LanguageStack (PYTHON_3_6_SP4\<lparr>package_list := []\<rparr>))
     = Inr (LanguageStack (PYTHON_3_6_SP4\<lparr>package_list := []\<rparr>))
   \<and> construct (LanguageStack (PYTHON_3_6_SP4\<lparr>custom_end := ''RUN true'',
                                                config_sh_script := ''true''\<rparr>))
     = Inr (LanguageStack (PYTHON_3_6_SP4\<lparr>custom_end := ''RUN true'',
                                             config_sh_script := ''true''\<rparr>))
   \<and> construct (Os (BUSYBOX_CONTAINER\<lparr>package_list := []\<rparr>))
     = Inl (ValueError ''No packages were added to Busybox.'')"
  by (simp add: LanguageStackContainer_post_init_def BaseContainerImage_post_init_def
      PYTHON_3_6_SP4_def BUSYBOX_CONTAINER_def)

section \<open>Flat package list\<close>

text \<open>
  Claim C3. The property \<^verbatim>\<open>packages\<close> raises if and only if the package list holds a
  \<^verbatim>\<open>Package\<close> whose type is not \<^verbatim>\<open>IMAGE\<close>, and the error then names the type of
  such an entry; otherwise it returns the names of the entries, tagged or not, in the order
  of the list, with one space between two names.
\<close>

theorem packages_flat:
  "((\<exists>e. packages self = Inl e) \<longleftrightarrow>
      (\<exists>p. PPkg p \<in> set (package_list self) \<and> pkg_type p \<noteq> IMAGE))
   \<and> (\<forall>e. packages self = Inl e \<longrightarrow>
        (\<exists>n t. PPkg (Package n t) \<in> set (package_list self) \<and> t \<noteq> IMAGE
           \<and> e = ValueError (''Cannot add a package of type '' @ spec_phase_name t
                              @ '' into a Dockerfile based build.'')))
   \<and> ((\<forall>p. PPkg p \<in> set (package_list self) \<longrightarrow> pkg_type p = IMAGE) \<longrightarrow>
        packages self = Inr (spec_flat (package_list self)))
   \<and> packages (self\<lparr>package_list := [PPkg (Package a IMAGE), PStr b, PPkg (Package c IMAGE)]\<rparr>)
       = Inr (a @ '' '' @ b @ '' '' @ c)"
proof (intro conjI allI impI)
  show "(\<exists>e. packages self = Inl e) \<longleftrightarrow>
      (\<exists>p. PPkg p \<in> set (package_list self) \<and> pkg_type p \<noteq> IMAGE)"
    using packages_check_ok [of "package_list self"]
      packages_check_cases [of "package_list self"]
    by (auto simp: packages_def split: sum.splits)
next
  fix e assume "packages self = Inl e"
  then have "packages_check (package_list self) = Inl e"
    by (simp add: packages_def split: sum.splits)
  then obtain p where p: "PPkg p \<in> set (package_list self)" "pkg_type p \<noteq> IMAGE"
      "e = ValueError (''Cannot add a package of type '' @ spec_phase_name (pkg_type p)
                        @ '' into a Dockerfile based build.'')"
    using packages_check_raises by blast
  obtain n t where "p = Package n t" by (cases p)
  with p show "\<exists>n t. PPkg (Package n t) \<in> set (package_list self) \<and> t \<noteq> IMAGE
           \<and> e = ValueError (''Cannot add a package of type '' @ spec_phase_name t
                              @ '' into a Dockerfile based build.'')"
    by auto
next
  assume "\<forall>p. PPkg p \<in> set (package_list self) \<longrightarrow> pkg_type p = IMAGE"
  then have "packages_check (package_list self) = Inr ()"
    by (simp add: packages_check_ok)
  then show "packages self = Inr (spec_flat (package_list self))"
    by (simp add: packages_def str_join_flat)
next
  show "packages (self\<lparr>package_list := [PPkg (Package a IMAGE), PStr b, PPkg (Package c IMAGE)]\<rparr>)
       = Inr (a @ '' '' @ b @ '' '' @ c)"
    by (simp add: packages_def)
qed

theorem packages_flat_witness:
  "packages (PYTHON_3_6_SP4\<lparr>package_list :=
       [PStr ''python3'', PPkg (Package ''curl'' IMAGE), PStr ''git-core'']\<rparr>)
     = Inr ''python3 curl git-core''
   \<and> packages BUSYBOX_CONTAINER
     = Inl (ValueError ''Cannot add a package of type bootstrap into a Dockerfile based build.'')"
proof -
  let ?py = "PYTHON_3_6_SP4\<lparr>package_list :=
       [PStr ''python3'', PPkg (Package ''curl'' IMAGE), PStr ''git-core'']\<rparr>"
  have "\<forall>p. PPkg p \<in> set (package_list ?py) \<longrightarrow> pkg_type p = IMAGE"
    by simp
  with packages_flat [of ?py] have "packages ?py = Inr (spec_flat (package_list ?py))"
    by blast
  then have 1: "packages ?py = Inr ''python3 curl git-core''"
    by (simp add: spec_flat_def)
  have "\<exists>p. PPkg p \<in> set (package_list BUSYBOX_CONTAINER) \<and> pkg_type p \<noteq> IMAGE"
    by (rule exI [of _ "Package ''busybox'' BOOTSTRAP"]) (simp add: BUSYBOX_CONTAINER_def)
  with packages_flat [of BUSYBOX_CONTAINER] obtain e where e: "packages BUSYBOX_CONTAINER = Inl e"
    by blast
  with packages_flat [of BUSYBOX_CONTAINER] obtain n t where
    "PPkg (Package n t) \<in> set (package_list BUSYBOX_CONTAINER)"
    "e = ValueError (''Cannot add a package of type '' @ spec_phase_name t
                      @ '' into a Dockerfile based build.'')"
    by blast
  then have "e = ValueError
      ''Cannot add a package of type bootstrap into a Dockerfile based build.''"
    by (auto simp: BUSYBOX_CONTAINER_def)
  with e 1 show ?thesis by simp
qed

section \<open>Number of build tags\<close>

text \<open>
  Claim C4. For every object, the number of build tags is
  \<open>(1 + [is_latest] + 1 + number of version aliases)\<close> times the number of names, the
  name of the object and its additional names. An \<^verbatim>\<open>OsContainer\<close> has no aliases.
\<close>

theorem build_tags_length:
  "length (build_tags self) =
     (1 + (if is_latest (base self) then 1 else 0) + 1 + length (aliases self))
     * (1 + length (additional_names (base self)))"
  by (cases self)
    (simp_all add: truncate_simps length_LanguageStackContainer_build_tags
      length_OsContainer_build_tags)

section \<open>Kiwi package list\<close>

text \<open>
  Claim C5. The property \<^verbatim>\<open>kiwi_packages\<close> splits the package list into the phases
  delete, bootstrap, image and uninstall: every entry is in exactly one of the four lists,
  and each list keeps the order of the package list. The result is the blocks of the four
  lists in that order. The block of an empty list is the empty text; the block of any other
  list is one \<^verbatim>\<open><packages>\<close> element that names the phase and holds one
  \<^verbatim>\<open><package>\<close> line for each entry of the list, in its order.
\<close>

theorem kiwi_packages_phases:
  "kiwi_packages self =
     spec_block DELETE (spec_phase DELETE (package_list self))
     @ spec_block BOOTSTRAP (spec_phase BOOTSTRAP (package_list self))
     @ spec_block IMAGE (spec_phase IMAGE (package_list self))
     @ spec_block UNINSTALL (spec_phase UNINSTALL (package_list self))
   \<and> mset (spec_phase DELETE (package_list self))
     + mset (spec_phase BOOTSTRAP (package_list self))
     + mset (spec_phase IMAGE (package_list self))
     + mset (spec_phase UNINSTALL (package_list self)) = mset (package_list self)
   \<and> spec_phase t (package_list self) = filter (pkg_filter_func t) (package_list self)
   \<and> subseq (spec_phase t (package_list self)) (package_list self)
   \<and> spec_block t [] = []
   \<and> spec_block t [PPkg (Package a t), PPkg (Package b t)]
       = ''  <packages type=\"'' @ spec_phase_name t @ ''\">'' @ [CHR 0x0A]
         @ ''    <package name=\"'' @ a @ ''\"/>'' @ [CHR 0x0A]
         @ ''    <package name=\"'' @ b @ ''\"/>'' @ [CHR 0x0A]
         @ ''  </packages>'' @ [CHR 0x0A]
   \<and> kiwi_packages (self\<lparr>package_list :=
         [PPkg (Package a BOOTSTRAP), PStr b, PPkg (Package c DELETE),
          PPkg (Package d BOOTSTRAP)]\<rparr>)
       = ''  <packages type=\"delete\">'' @ [CHR 0x0A]
         @ ''    <package name=\"'' @ c @ ''\"/>'' @ [CHR 0x0A]
         @ ''  </packages>'' @ [CHR 0x0A]
         @ ''  <packages type=\"bootstrap\">'' @ [CHR 0x0A]
         @ ''    <package name=\"'' @ a @ ''\"/>'' @ [CHR 0x0A]
         @ ''    <package name=\"'' @ d @ ''\"/>'' @ [CHR 0x0A]
         @ ''  </packages>'' @ [CHR 0x0A]
         @ ''  <packages type=\"image\">'' @ [CHR 0x0A]
         @ ''    <package name=\"'' @ b @ ''\"/>'' @ [CHR 0x0A]
         @ ''  </packages>'' @ [CHR 0x0A]"
proof (intro conjI)
  show "kiwi_packages self =
     spec_block DELETE (spec_phase DELETE (package_list self))
     @ spec_block BOOTSTRAP (spec_phase BOOTSTRAP (package_list self))
     @ spec_block IMAGE (spec_phase IMAGE (package_list self))
     @ spec_block UNINSTALL (spec_phase UNINSTALL (package_list self))"
    by (rule kiwi_packages_eq)
  show "mset (spec_phase DELETE (package_list self))
     + mset (spec_phase BOOTSTRAP (package_list self))
     + mset (spec_phase IMAGE (package_list self))
     + mset (spec_phase UNINSTALL (package_list self)) = mset (package_list self)"
    by (rule phases_partition)
  show "spec_phase t (package_list self) = filter (pkg_filter_func t) (package_list self)"
    by (rule filter_phase [symmetric])
  show "subseq (spec_phase t (package_list self)) (package_list self)"
    by (simp add: spec_phase_def)
  show "spec_block t [] = []"
    by (simp add: spec_block_def)
  show "spec_block t [PPkg (Package a t), PPkg (Package b t)]
       = ''  <packages type=\"'' @ spec_phase_name t @ ''\">'' @ [CHR 0x0A]
         @ ''    <package name=\"'' @ a @ ''\"/>'' @ [CHR 0x0A]
         @ ''    <package name=\"'' @ b @ ''\"/>'' @ [CHR 0x0A]
         @ ''  </packages>'' @ [CHR 0x0A]"
    by (simp add: spec_block_def spec_package_line_def)
  show "kiwi_packages (self\<lparr>package_list :=
         [PPkg (Package a BOOTSTRAP), PStr b, PPkg (Package c DELETE),
          PPkg (Package d BOOTSTRAP)]\<rparr>)
       = ''  <packages type=\"delete\">'' @ [CHR 0x0A]
         @ ''    <package name=\"'' @ c @ ''\"/>'' @ [CHR 0x0A]
         @ ''  </packages>'' @ [CHR 0x0A]
         @ ''  <packages type=\"bootstrap\">'' @ [CHR 0x0A]
         @ ''    <package name=\"'' @ a @ ''\"/>'' @ [CHR 0x0A]
         @ ''    <package name=\"'' @ d @ ''\"/>'' @ [CHR 0x0A]
         @ ''  </packages>'' @ [CHR 0x0A]
         @ ''  <packages type=\"image\">'' @ [CHR 0x0A]
         @ ''    <package name=\"'' @ b @ ''\"/>'' @ [CHR 0x0A]
         @ ''  </packages>'' @ [CHR 0x0A]"
    by (simp add: kiwi_packages_def PKG_TYPES_def packages_element_def nl_def)
qed

section \<open>Registry prefix of the build tags\<close>

text \<open>
  Claim C7 says that every build tag of a language stack starts with \<^verbatim>\<open>bci/\<close>. The
  prefix is the field \<^verbatim>\<open>_registry_prefix\<close> of the object, which the constructor
  accepts: a language stack constructed with \<^verbatim>\<open>_registry_prefix="suse"\<close> has the tag
  \<^verbatim>\<open>suse/python:3.6\<close>.
\<close>

theorem language_stack_prefix_counterexample:
  "construct (LanguageStack (PYTHON_3_6_SP4\<lparr>registry_prefix := ''suse''\<rparr>))
     = Inr (LanguageStack (PYTHON_3_6_SP4\<lparr>registry_prefix := ''suse''\<rparr>))
   \<and> ''suse/python:3.6''
       \<in> set (build_tags (LanguageStack (PYTHON_3_6_SP4\<lparr>registry_prefix := ''suse''\<rparr>)))
   \<and> \<not> prefix ''bci/'' ''suse/python:3.6''"
  by (simp add: LanguageStackContainer_post_init_def PYTHON_3_6_SP4_def
      LanguageStackContainer_build_tags_def LanguageStackContainer_tags_of_def
      LanguageStackContainer_version_label_def)

text \<open>
  Claim C7, amended. Every build tag of a language stack starts with the
  \<^verbatim>\<open>_registry_prefix\<close> of the object and a slash, which is \<^verbatim>\<open>bci/\<close> when the field has
  its default \<^verbatim>\<open>"bci"\<close>; every build tag of a constructed application stack starts with
  \<^verbatim>\<open>suse/\<close>, whatever prefix was given, and the two prefixes exclude each other.
\<close>

theorem build_tags_registry_prefix:
  "(\<forall>t \<in> set (build_tags (LanguageStack c)). prefix (registry_prefix c @ ''/'') t)
   \<and> (registry_prefix c = ''bci'' \<longrightarrow>
        (\<forall>t \<in> set (build_tags (LanguageStack c)). prefix ''bci/'' t \<and> \<not> prefix ''suse/'' t))
   \<and> (\<forall>self. construct (ApplicationStack c) = Inr self \<longrightarrow>
        (\<forall>t \<in> set (build_tags self). prefix ''suse/'' t \<and> \<not> prefix ''bci/'' t))"
proof (intro conjI allI impI ballI)
  fix t assume "t \<in> set (build_tags (LanguageStack c))"
  then show "prefix (registry_prefix c @ ''/'') t"
    by (simp add: LanguageStackContainer_tags_prefix)
next
  fix t assume "registry_prefix c = ''bci''" "t \<in> set (build_tags (LanguageStack c))"
  then have "prefix ''bci/'' t"
    using LanguageStackContainer_tags_prefix [of t c] by simp
  then show "prefix ''bci/'' t" "\<not> prefix ''suse/'' t"
    by (auto simp: prefix_def)
next
  fix self t
  assume "construct (ApplicationStack c) = Inr self" "t \<in> set (build_tags self)"
  then have "self = ApplicationStack (c\<lparr>registry_prefix := ''suse''\<rparr>)"
    by (auto simp: ApplicationStackContainer_post_init_def LanguageStackContainer_post_init_def
        split: if_splits)
  with \<open>t \<in> set (build_tags self)\<close> have "prefix ''suse/'' t"
    using LanguageStackContainer_tags_prefix [of t "c\<lparr>registry_prefix := ''suse''\<rparr>"] by simp
  then show "prefix ''suse/'' t" "\<not> prefix ''bci/'' t"
    by (auto simp: prefix_def)
qed

theorem build_tags_registry_prefix_witness:
  "registry_prefix PYTHON_3_6_SP4 = ''bci''
   \<and> ''bci/python:3.6'' \<in> set (build_tags (LanguageStack PYTHON_3_6_SP4))
   \<and> prefix ''bci/'' ''bci/python:3.6''
   \<and> construct (ApplicationStack PYTHON_3_6_SP4)
       = Inr (ApplicationStack (PYTHON_3_6_SP4\<lparr>registry_prefix := ''suse''\<rparr>))
   \<and> ''suse/python:3.6''
       \<in> set (build_tags (ApplicationStack (PYTHON_3_6_SP4\<lparr>registry_prefix := ''suse''\<rparr>)))
   \<and> prefix ''suse/'' ''suse/python:3.6''"
proof -
  have a: "registry_prefix PYTHON_3_6_SP4 = ''bci''"
    by (simp add: PYTHON_3_6_SP4_def)
  have b: "''bci/python:3.6'' \<in> set (build_tags (LanguageStack PYTHON_3_6_SP4))"
    by (simp add: PYTHON_3_6_SP4_def LanguageStackContainer_build_tags_def
        LanguageStackContainer_tags_of_def LanguageStackContainer_version_label_def)
  have c: "construct (ApplicationStack PYTHON_3_6_SP4)
       = Inr (ApplicationStack (PYTHON_3_6_SP4\<lparr>registry_prefix := ''suse''\<rparr>))"
    by (simp add: PYTHON_3_6_SP4_def ApplicationStackContainer_post_init_def
        LanguageStackContainer_post_init_def)
  have d: "''suse/python:3.6''
       \<in> set (build_tags (ApplicationStack (PYTHON_3_6_SP4\<lparr>registry_prefix := ''suse''\<rparr>)))"
    by (simp add: PYTHON_3_6_SP4_def LanguageStackContainer_build_tags_def
        LanguageStackContainer_tags_of_def LanguageStackContainer_version_label_def)
  from a b c d build_tags_registry_prefix [of PYTHON_3_6_SP4] show ?thesis
    by blast
qed

section \<open>Title and description\<close>

text \<open>
  Claim C8 says that the title can be overridden like the description. The class has no
  field that overrides the title: setting \<^verbatim>\<open>custom_description\<close>, the one custom text of
  the two labels, changes the description and leaves the title as generated.
\<close>

theorem title_override_counterexample:
  "description (PYTHON_3_6_SP4\<lparr>custom_description := ''My own text''\<rparr>) = ''My own text''
   \<and> title (PYTHON_3_6_SP4\<lparr>custom_description := ''My own text''\<rparr>)
       = ''SLE BCI Python 3.6 Container Image''
   \<and> title (PYTHON_3_6_SP4\<lparr>custom_description := ''My own text''\<rparr>) \<noteq> ''My own text''"
  by (simp add: description_def title_def PYTHON_3_6_SP4_def)

text \<open>
  Claim C8, amended. The description is the custom description when one is set and
  otherwise \<^verbatim>\<open>Image containing {pretty_name} based on the SLE Base Container Image.\<close>; the
  title is always \<^verbatim>\<open>SLE BCI {pretty_name} Container Image\<close>, so two objects with the same
  pretty name have the same title.
\<close>

theorem description_and_title:
  "(custom_description self \<noteq> [] \<longrightarrow> description self = custom_description self)
   \<and> (custom_description self = [] \<longrightarrow>
        description self
          = ''Image containing '' @ pretty_name self
            @ '' based on the SLE Base Container Image.'')
   \<and> title self = ''SLE BCI '' @ pretty_name self @ '' Container Image''
   \<and> (pretty_name other = pretty_name self \<longrightarrow> title other = title self)"
proof (intro conjI impI)
  show "description self = custom_description self" if "custom_description self \<noteq> []"
    using that by (simp add: description_def)
  show "description self
      = ''Image containing '' @ pretty_name self @ '' based on the SLE Base Container Image.''"
    if "custom_description self = []"
    using that by (simp add: description_def)
  show "title self = ''SLE BCI '' @ pretty_name self @ '' Container Image''"
    by (simp add: title_def)
  show "title other = title self" if "pretty_name other = pretty_name self"
    unfolding title_def that ..
qed

theorem description_and_title_witness:
  "custom_description PYTHON_3_6_SP4 \<noteq> []
   \<and> description PYTHON_3_6_SP4 = custom_description PYTHON_3_6_SP4
   \<and> custom_description (BUSYBOX_CONTAINER\<lparr>custom_description := []\<rparr>) = []
   \<and> description (BUSYBOX_CONTAINER\<lparr>custom_description := []\<rparr>)
     = ''Image containing Busybox based on the SLE Base Container Image.''
   \<and> title (BUSYBOX_CONTAINER\<lparr>custom_description := []\<rparr>) = title BUSYBOX_CONTAINER"
proof -
  have a: "custom_description PYTHON_3_6_SP4 \<noteq> []"
    by (simp add: PYTHON_3_6_SP4_def)
  have b: "custom_description (BUSYBOX_CONTAINER\<lparr>custom_description := []\<rparr>) = []"
    by simp
  have c: "pretty_name (BUSYBOX_CONTAINER\<lparr>custom_description := []\<rparr>)
      = pretty_name BUSYBOX_CONTAINER"
    by simp
  have d: "pretty_name (BUSYBOX_CONTAINER\<lparr>custom_description := []\<rparr>) = ''Busybox''"
    by (simp add: BUSYBOX_CONTAINER_def)
  have 1: "description PYTHON_3_6_SP4 = custom_description PYTHON_3_6_SP4"
    using description_and_title [of PYTHON_3_6_SP4 PYTHON_3_6_SP4] a by blast
  have 2: "description (BUSYBOX_CONTAINER\<lparr>custom_description := []\<rparr>)
      = ''Image containing '' @ pretty_name (BUSYBOX_CONTAINER\<lparr>custom_description := []\<rparr>)
        @ '' based on the SLE Base Container Image.''"
    using description_and_title [of "BUSYBOX_CONTAINER\<lparr>custom_description := []\<rparr>"
        "BUSYBOX_CONTAINER\<lparr>custom_description := []\<rparr>"] b
    by blast
  have 3: "title (BUSYBOX_CONTAINER\<lparr>custom_description := []\<rparr>) = title BUSYBOX_CONTAINER"
    using description_and_title [of BUSYBOX_CONTAINER
        "BUSYBOX_CONTAINER\<lparr>custom_description := []\<rparr>"] c
    by blast
  from a b 1 3 show ?thesis
    unfolding 2 d by simp
qed

section \<open>Plain strings in the package list\<close>

text \<open>
  Claim C9. An entry that is a plain string counts as a package of the image phase. The
  filter of \<^verbatim>\<open>kiwi_packages\<close> accepts it for \<^verbatim>\<open>IMAGE\<close> and for no other type, so
  the result holds a block marked \<^verbatim>\<open>image\<close> in which the line of the string stands
  between the lines of the image packages before it and those after it, and the blocks of
  the other three phases are those of the list without the string. \<^verbatim>\<open>packages\<close> raises
  on a list with the string exactly when it raises, with the same error, on the list
  without it, and it returns the joined strings on a list of plain strings.
\<close>

theorem plain_string_is_image_phase:
  "pkg_filter_func t (PStr s) = (t = IMAGE)
   \<and> filter (pkg_filter_func IMAGE) (xs @ PStr s # ys)
       = filter (pkg_filter_func IMAGE) xs @ PStr s # filter (pkg_filter_func IMAGE) ys
   \<and> (t \<noteq> IMAGE \<longrightarrow>
        filter (pkg_filter_func t) (xs @ PStr s # ys) = filter (pkg_filter_func t) (xs @ ys))
   \<and> kiwi_packages (self\<lparr>package_list := xs @ PStr s # ys\<rparr>)
       = spec_block DELETE (spec_phase DELETE (xs @ ys))
         @ spec_block BOOTSTRAP (spec_phase BOOTSTRAP (xs @ ys))
         @ (''  <packages type=\"image\">''
            @ concat (map spec_package_line (spec_phase IMAGE xs))
            @ [CHR 0x0A] @ ''    <package name=\"'' @ s @ ''\"/>''
            @ concat (map spec_package_line (spec_phase IMAGE ys))
            @ [CHR 0x0A] @ ''  </packages>'' @ [CHR 0x0A])
         @ spec_block UNINSTALL (spec_phase UNINSTALL (xs @ ys))
   \<and> (\<forall>e. packages (self\<lparr>package_list := xs @ PStr s # ys\<rparr>) = Inl e
          \<longleftrightarrow> packages (self\<lparr>package_list := xs @ ys\<rparr>) = Inl e)
   \<and> packages (self\<lparr>package_list := [PStr a, PStr s, PStr b]\<rparr>)
       = Inr (a @ '' '' @ s @ '' '' @ b)
   \<and> (\<forall>ss. \<exists>r. packages (self\<lparr>package_list := map PStr ss\<rparr>) = Inr r)"
proof (intro conjI)
  show "pkg_filter_func t (PStr s) = (t = IMAGE)"
    by simp
  show "filter (pkg_filter_func IMAGE) (xs @ PStr s # ys)
       = filter (pkg_filter_func IMAGE) xs @ PStr s # filter (pkg_filter_func IMAGE) ys"
    by simp
  show "t \<noteq> IMAGE \<longrightarrow>
        filter (pkg_filter_func t) (xs @ PStr s # ys) = filter (pkg_filter_func t) (xs @ ys)"
    by simp
  have "spec_block IMAGE (spec_phase IMAGE (xs @ PStr s # ys))
      = ''  <packages type=\"image\">''
        @ concat (map spec_package_line (spec_phase IMAGE xs))
        @ [CHR 0x0A] @ ''    <package name=\"'' @ s @ ''\"/>''
        @ concat (map spec_package_line (spec_phase IMAGE ys))
        @ [CHR 0x0A] @ ''  </packages>'' @ [CHR 0x0A]"
    unfolding spec_phase_str(1) by (simp add: spec_block_def spec_package_line_def)
  then show "kiwi_packages (self\<lparr>package_list := xs @ PStr s # ys\<rparr>)
       = spec_block DELETE (spec_phase DELETE (xs @ ys))
         @ spec_block BOOTSTRAP (spec_phase BOOTSTRAP (xs @ ys))
         @ (''  <packages type=\"image\">''
            @ concat (map spec_package_line (spec_phase IMAGE xs))
            @ [CHR 0x0A] @ ''    <package name=\"'' @ s @ ''\"/>''
            @ concat (map spec_package_line (spec_phase IMAGE ys))
            @ [CHR 0x0A] @ ''  </packages>'' @ [CHR 0x0A])
         @ spec_block UNINSTALL (spec_phase UNINSTALL (xs @ ys))"
    unfolding kiwi_packages_eq by (simp add: spec_phase_str(2))
  show "\<forall>e. packages (self\<lparr>package_list := xs @ PStr s # ys\<rparr>) = Inl e
          \<longleftrightarrow> packages (self\<lparr>package_list := xs @ ys\<rparr>) = Inl e"
    by (simp add: packages_def packages_check_skips_str split: sum.splits)
  show "packages (self\<lparr>package_list := [PStr a, PStr s, PStr b]\<rparr>)
       = Inr (a @ '' '' @ s @ '' '' @ b)"
    by (simp add: packages_def)
  show "\<forall>ss. \<exists>r. packages (self\<lparr>package_list := map PStr ss\<rparr>) = Inr r"
    by (simp add: packages_def packages_check_strs)
qed

theorem plain_string_is_image_phase_witness:
  "DELETE \<noteq> IMAGE
   \<and> filter (pkg_filter_func DELETE) ([PPkg (Package ''grep'' DELETE)] @ PStr ''curl'' # [])
       = [PPkg (Package ''grep'' DELETE)]
   \<and> kiwi_packages (BUSYBOX_CONTAINER\<lparr>package_list :=
         [PPkg (Package ''grep'' DELETE)] @ PStr ''curl'' # []\<rparr>)
       = ''  <packages type=\"delete\">'' @ [CHR 0x0A]
         @ ''    <package name=\"grep\"/>'' @ [CHR 0x0A]
         @ ''  </packages>'' @ [CHR 0x0A]
         @ ''  <packages type=\"image\">'' @ [CHR 0x0A]
         @ ''    <package name=\"curl\"/>'' @ [CHR 0x0A]
         @ ''  </packages>'' @ [CHR 0x0A]"
  using plain_string_is_image_phase
    [of DELETE "''curl''" "[PPkg (Package ''grep'' DELETE)]" "[]" BUSYBOX_CONTAINER]
  by (simp add: spec_block_def spec_phase_def spec_package_line_def)

section \<open>The reference\<close>

text \<open>
  Claim C10. For every object of the three classes, the list of build tags has at least two
  entries, the first two being tags of the name of the object, so \<^verbatim>\<open>build_tags[0]\<close> does
  not raise and \<^verbatim>\<open>reference\<close> is \<^verbatim>\<open>registry.suse.com/\<close> followed by the first build
  tag.
\<close>

theorem reference_defined:
  "\<exists>t1 t2 rest. build_tags self = t1 # t2 # rest
     \<and> reference self = Inr (''registry.suse.com/'' @ t1)
     \<and> prefix [t1, t2] (tags_of self (name (base self)))
     \<and> prefix (tags_of self (name (base self))) (build_tags self)"
proof -
  have p: "prefix (tags_of self (name (base self))) (build_tags self)"
    by (cases self)
      (simp_all add: truncate_simps LanguageStackContainer_build_tags_def
        OsContainer_build_tags_def build_tags_loop_eq)
  have "\<exists>t1 t2 rest. tags_of self (name (base self)) = t1 # t2 # rest"
    by (cases self)
      (auto simp: LanguageStackContainer_tags_of_def OsContainer_tags_of_def)
  then obtain t1 t2 rest where t: "tags_of self (name (base self)) = t1 # t2 # rest"
    by blast
  with p obtain rest' where b: "build_tags self = t1 # t2 # rest'"
    by (auto simp: prefix_def)
  then have "reference self = Inr (''registry.suse.com/'' @ t1)"
    by (simp add: reference_def)
  with b t p show ?thesis
    by simp
qed

section \<open>Auxiliary facts on writing the files\<close>

subsection \<open>Collecting the tasks\<close>








subsection \<open>Running the tasks\<close>









subsection \<open>File names\<close>



subsection \<open>The plain environment\<close>



section \<open>The files written\<close>




section \<open>The changes file\<close>




end
